theory Spec2Isabelle
  imports Main "HOL-Library.Word" "HOL-Library.AList"
begin

section \<open>Values shared by the request pipeline\<close>

text \<open>
  The pipeline is asynchronous JavaScript, but every \<^verbatim>\<open>await\<close> in it is sequential:
  each step waits for the previous one.  The model therefore runs the steps in program
  order.  A thrown exception (a rejected promise) is the \<open>Inl\<close> branch of a sum; a
  normal return is the \<open>Inr\<close> branch.

  Strings are lists of characters whose code points lie below 256.
\<close>

datatype error =
    Error string
  | TypeError string

type_synonym RouteType = string

section \<open>Render hooks (integrations/render-hooks.ts)\<close>

text \<open>
  The object handed to a hook's \<^verbatim>\<open>postProcessHtml\<close>:
  \<^verbatim>\<open>{ routeType, pathname, html, ssr, options }\<close>.
\<close>

record PostProcessHtmlArgs =
  routeType :: RouteType
  pathname :: string
  html :: string
  ssr :: bool
  options :: string

text \<open>
  What \<^verbatim>\<open>postProcessHtml\<close> hands back: a replacement string, or \<^verbatim>\<open>undefined\<close>.
  JavaScript's truthiness test \<^verbatim>\<open>if (newHtml)\<close> fails for \<^verbatim>\<open>undefined\<close> and for the
  empty string.
\<close>

datatype HookReturn =
    Undefined
  | Html string

fun truthy :: "HookReturn \<Rightarrow> bool" where
  "truthy Undefined = False"
| "truthy (Html s) = (s \<noteq> [])"

text \<open>
  A loaded render hook.  \<open>postProcessHtml\<close> is optional: \<open>None\<close> is a hook module that
  does not export it.  A hook may throw, hence the sum in its result.
\<close>

record RenderHookModule =
  postProcessHtml :: "(PostProcessHtmlArgs \<Rightarrow> error + HookReturn) option"

record SSRLoadedRenderHook =
  name :: string
  hookEntrypoint :: string
  options :: string
  ssr :: RenderHookModule

text \<open>
  One entry per call made to a hook's \<^verbatim>\<open>postProcessHtml\<close>, in call order: the name
  of the hook and the argument object it received.  The log is how the model makes
  "this hook was (not) invoked" observable.
\<close>

type_synonym HookCall = "string \<times> PostProcessHtmlArgs"

text \<open>
  The \<^verbatim>\<open>for\<close> loop of \<^verbatim>\<open>runRenderHookPostProcessHtml\<close>, as recursion over the hooks
  that are still to run.  \<open>cur\<close> is the loop's \<^verbatim>\<open>html\<close> variable.
\<close>

fun postProcessLoop ::
  "SSRLoadedRenderHook list \<Rightarrow> RouteType \<Rightarrow> string \<Rightarrow> bool \<Rightarrow> string \<Rightarrow> HookCall list
     \<Rightarrow> HookCall list \<times> (error + string)" where
  "postProcessLoop [] rt pn s cur calls = (calls, Inr cur)"
| "postProcessLoop (h # hs) rt pn s cur calls =
     (case postProcessHtml (SSRLoadedRenderHook.ssr h) of
        None \<Rightarrow> postProcessLoop hs rt pn s cur calls
      | Some f \<Rightarrow>
          (let args = \<lparr>routeType = rt, pathname = pn, html = cur, ssr = s,
                       options = SSRLoadedRenderHook.options h\<rparr>;
               calls' = calls @ [(name h, args)]
           in case f args of
                Inl e \<Rightarrow> (calls', Inl e)
              | Inr newHtml \<Rightarrow>
                  postProcessLoop hs rt pn s
                    (if truthy newHtml then (case newHtml of Html n \<Rightarrow> n | Undefined \<Rightarrow> cur)
                     else cur)
                    calls'))"

definition runRenderHookPostProcessHtml ::
  "SSRLoadedRenderHook list \<Rightarrow> RouteType \<Rightarrow> string \<Rightarrow> string \<Rightarrow> bool
     \<Rightarrow> HookCall list \<times> (error + string)" where
  "runRenderHookPostProcessHtml renderHooks rt pn h s = postProcessLoop renderHooks rt pn s h []"

text \<open>The hooks that have a \<^verbatim>\<open>postProcessHtml\<close>.\<close>

definition hasPostProcessHtml :: "SSRLoadedRenderHook \<Rightarrow> bool" where
  "hasPostProcessHtml h = (postProcessHtml (SSRLoadedRenderHook.ssr h) \<noteq> None)"

section \<open>Requests, responses, routes\<close>

text \<open>
  A request, with its URL already parsed: \<open>origin\<close> and \<open>pathname\<close> are what
  \<^verbatim>\<open>new URL(request.url)\<close> exposes.
\<close>

record URL =
  origin :: string
  pathname :: string

record Request =
  httpMethod :: string
  url :: URL

type_synonym byte = "8 word"

record ResponseInit =
  status :: nat
  statusText :: string
  headers :: "(string \<times> string) list"

text \<open>
  A \<^verbatim>\<open>Response\<close> value seen by this code is one of two things: an object that already
  exists, made by an endpoint handler or a component and known here only by its address
  (nothing in this code reads or writes its fields); or the object that
  \<^verbatim>\<open>new Response(body, init)\<close> makes here, given by its body and its init.  Two
  \<open>ResponseObject\<close> values are equal exactly when they are the same object.
\<close>

datatype Response =
    ResponseObject nat
  | NewResponse "byte list option" ResponseInit

type_synonym Params = "(string \<times> string) list"
type_synonym Props = "(string \<times> string) list"

text \<open>
  A compiled module: a page component or an endpoint handler.  \<open>metadata\<close> is
  \<open>Some paths\<close> when the module has an own property \<^verbatim>\<open>$$metadata\<close>, with \<open>paths\<close> what
  \<^verbatim>\<open>$$metadata.hoistedScriptPaths()\<close> yields.
\<close>

record ComponentInstance =
  moduleId :: string
  metadata :: "string list option"

text \<open>
  Modelled from the spec: the type \<^verbatim>\<open>RouteData\<close> is declared in
  \<^verbatim>\<open>@types/astro\<close>, which is not among the sources.  The spec gives a route a
  pattern, a declared kind and a reference to its component or handler, and speaks of a
  statically generated route's precomputed set of static paths.  \<open>route\<close> is the
  pattern; \<open>type\<close> is the declared kind, a string tag, so that a manifest can carry a
  kind other than \<^verbatim>\<open>'page'\<close> and \<^verbatim>\<open>'endpoint'\<close>; \<open>staticPaths\<close> is \<open>Some paths\<close>
  for a statically generated route and \<open>None\<close> for a dynamic one.
\<close>

record RouteData =
  route :: string
  type :: RouteType
  component :: string
  staticPaths :: "string list option"

text \<open>
  Modelled from the spec: the class \<^verbatim>\<open>RouteCache\<close> of
  \<^verbatim>\<open>core/render/route-cache.js\<close> is not among the sources.  Per the spec an entry
  "holds computed [params, props] or a sentinel indicating no matching static path" and
  results are cached "keyed by (route, concrete-path)".  A new cache is empty.
\<close>

datatype RouteCacheEntry =
    CachedParamsAndProps Params Props
  | CachedNoMatchingStaticPath

type_synonym RouteCache = "((RouteData \<times> string) \<times> RouteCacheEntry) list"

record LogOptions =
  dest :: string
  level :: string

definition RouteCache_new :: "LogOptions \<Rightarrow> RouteCache" where
  "RouteCache_new logging = []"

text \<open>An element to inject into the page: \<^verbatim>\<open>{ props, children }\<close>.\<close>

datatype PropValue =
    PropString string
  | PropBool bool

record SSRElement =
  props :: "(string \<times> PropValue) list"
  children :: string

text \<open>A loaded renderer; this code only passes renderers on.\<close>

type_synonym SSRLoadedRenderer = string

text \<open>The markdown renderer and its options, passed on as they are.\<close>

type_synonym MarkdownRenderOptions = "string \<times> string"

section \<open>Options objects\<close>

text \<open>
  The option objects of the source share most of their fields
  (\<^verbatim>\<open>EndpointOptions\<close> is a \<^verbatim>\<open>Pick\<close> of \<^verbatim>\<open>RenderOptions\<close>), so the records extend
  one another.  \<open>route\<close> is optional (\<^verbatim>\<open>route?: RouteData\<close>), and so is \<open>site\<close>.
  \<open>routeCache\<close> is the cache object the caller hands in; a callee that writes to it
  returns the cache as it leaves it.
\<close>

record CommonOptions =
  logging :: LogOptions
  origin :: string
  pathname :: string
  request :: Request
  route :: "RouteData option"
  routeCache :: RouteCache

record EndpointOptions = CommonOptions +
  renderHooks :: "SSRLoadedRenderHook list"
  site :: "string option"
  ssr :: bool

record RenderOptions = EndpointOptions +
  legacyBuild :: bool
  links :: "SSRElement list"
  markdownRender :: MarkdownRenderOptions
  module :: "ComponentInstance option"
  renderers :: "SSRLoadedRenderer list"
  resolve :: "string \<Rightarrow> error + string"
  scripts :: "SSRElement list"

text \<open>The two shapes a page render can have, and the two an endpoint call can have.\<close>

datatype RenderResponse =
    HtmlResult string
  | ResponseResult Response

datatype EndpointCallResult =
    SimpleCallResult string
  | ResponseCallResult Response

text \<open>What \<^verbatim>\<open>renderEndpoint\<close> hands back: a \<^verbatim>\<open>Response\<close>, or an object with a \<^verbatim>\<open>body\<close>.\<close>

datatype EndpointOutput =
    EndpointResponse Response
  | EndpointBody string

datatype GetParamsAndPropsResult =
    NoMatchingStaticPath
  | ParamsAndProps Params Props

section \<open>The development server's option objects\<close>

record AstroScript =
  stage :: string
  scriptContent :: string

text \<open>\<open>ctxScripts\<close> is \<^verbatim>\<open>astroConfig._ctx.scripts\<close>.\<close>

record AstroConfig =
  configSite :: "string option"
  base :: string
  markdown :: string
  ctxScripts :: "AstroScript list"

text \<open>
  The Vite server, as far as the renderer uses it: \<open>resolveUrl\<close> is
  \<^verbatim>\<open>viteServer.moduleGraph.resolveUrl\<close>, which yields a resolved URL and a resolved path
  or throws.
\<close>

record ViteDevServer =
  serverId :: string
  resolveUrl :: "string \<Rightarrow> error + (string \<times> string)"

datatype RuntimeMode =
    Development
  | Production

record SSROptions = CommonOptions +
  astroConfig :: AstroConfig
  filePath :: string
  mode :: RuntimeMode
  viteServer :: ViteDevServer

text \<open>A tag for \<^verbatim>\<open>injectTags\<close>: \<^verbatim>\<open>{ tag, attrs, children, injectTo }\<close>.\<close>

record HtmlTagDescriptor =
  tag :: string
  attrs :: "(string \<times> PropValue) list"
  tagChildren :: "string option"
  injectTo :: string

section \<open>Code outside the sources\<close>

text \<open>
  The functions below are called by the code under study but are defined elsewhere: in
  files of the repository that are not among the sources, in the \<^verbatim>\<open>mime\<close> package, or
  in the platform.  They are parameters of the model, collected in one record.

  \<^item> \<open>patternTest p path\<close>: does the route pattern \<open>p\<close> accept \<open>path\<close>;
  \<^item> \<open>computeParamsAndProps r path\<close>: the params and props of route \<open>r\<close> at \<open>path\<close>;
  \<^item> \<open>renderEndpoint\<close> (\<^verbatim>\<open>runtime/server/index.js\<close>): runs the endpoint handler;
  \<^item> \<open>coreRender\<close> (\<^verbatim>\<open>render\<close> of \<^verbatim>\<open>core/render/core.js\<close>): renders a page; it is
    handed the route cache in its options and returns the cache as it leaves it;
  \<^item> \<open>createLinkStylesheetElementSet\<close>, \<open>createModuleScriptElementWithSrcSet\<close>
    (\<^verbatim>\<open>core/render/ssr-element.js\<close>), with the optional \<^verbatim>\<open>site\<close> as second argument;
  \<^item> \<open>prependForwardSlash\<close> (\<^verbatim>\<open>core/path.js\<close>);
  \<^item> \<open>getType\<close>: \<^verbatim>\<open>mime.getType\<close>, \<open>None\<close> for \<^verbatim>\<open>null\<close>;
  \<^item> \<open>getStylesForURL\<close> (\<^verbatim>\<open>render/dev/css.js\<close>), \<open>injectTags\<close>
    (\<^verbatim>\<open>render/dev/html.js\<close>), \<open>isBuildingToSSR\<close> (\<^verbatim>\<open>core/util.js\<close>);
  \<^item> \<open>hmrPathname\<close>: the pathname of \<^verbatim>\<open>runtime/client/hmr.js\<close> relative to the
    renderer's own module URL;
  \<^item> \<open>resolveSite base site\<close>: \<^verbatim>\<open>new URL(base, site).toString()\<close>, which throws on
    an invalid URL.
\<close>

record Env =
  patternTest :: "string \<Rightarrow> string \<Rightarrow> bool"
  computeParamsAndProps :: "RouteData \<Rightarrow> string \<Rightarrow> Params \<times> Props"
  renderEndpoint :: "ComponentInstance option \<Rightarrow> Request \<Rightarrow> Params \<Rightarrow> error + EndpointOutput"
  coreRender :: "RenderOptions \<Rightarrow> (error + RenderResponse) \<times> RouteCache"
  createLinkStylesheetElementSet :: "string list \<Rightarrow> string option \<Rightarrow> SSRElement list"
  createModuleScriptElementWithSrcSet :: "string list \<Rightarrow> string option \<Rightarrow> SSRElement list"
  prependForwardSlash :: "string \<Rightarrow> string"
  getType :: "string \<Rightarrow> string option"
  getStylesForURL :: "string \<Rightarrow> ViteDevServer \<Rightarrow> string list"
  injectTags :: "string \<Rightarrow> HtmlTagDescriptor list \<Rightarrow> string"
  isBuildingToSSR :: "AstroConfig \<Rightarrow> bool"
  hmrPathname :: string
  resolveSite :: "string \<Rightarrow> string \<Rightarrow> error + string"

section \<open>Resolving params and props\<close>

text \<open>
  Modelled from the spec: \<^verbatim>\<open>getParamsAndProps\<close> of \<^verbatim>\<open>core/render/core.js\<close> is not
  among the sources.  The spec (4.2): "For statically-generated routes, consults a
  precomputed list of valid static paths; if the request's concrete path is not among
  them, returns the distinguished NoMatchingStaticPath outcome.  For dynamic routes,
  computes params directly from the matched pattern.  Caches results keyed by (route,
  concrete-path)".  The static-path check comes first and does not depend on the cache,
  so that a path outside the set gives \<open>NoMatchingStaticPath\<close> on every call, as the
  spec requires; the outcome is recorded in the cache under the key.  Otherwise a cached
  pair is returned if there is one, and a computed pair is stored.  The spec speaks of
  routes only; without a route the model returns empty params and props.
\<close>

definition getParamsAndProps ::
  "Env \<Rightarrow> ComponentInstance option \<Rightarrow> 'a CommonOptions_scheme
     \<Rightarrow> GetParamsAndPropsResult \<times> RouteCache" where
  "getParamsAndProps env m opts =
     (case route opts of
        None \<Rightarrow> (ParamsAndProps [] [], routeCache opts)
      | Some r \<Rightarrow>
          (let key = (r, CommonOptions.pathname opts); cache = routeCache opts
           in if (case staticPaths r of
                    Some paths \<Rightarrow> CommonOptions.pathname opts \<notin> set paths
                  | None \<Rightarrow> False)
              then (NoMatchingStaticPath, AList.update key CachedNoMatchingStaticPath cache)
              else (case map_of cache key of
                      Some (CachedParamsAndProps params pageProps) \<Rightarrow>
                        (ParamsAndProps params pageProps, cache)
                    | _ \<Rightarrow>
                        (case computeParamsAndProps env r (CommonOptions.pathname opts) of
                           (params, pageProps) \<Rightarrow>
                             (ParamsAndProps params pageProps,
                              AList.update key (CachedParamsAndProps params pageProps) cache)))))"

section \<open>The endpoint invoker (core/endpoint/index.ts)\<close>

text \<open>
  \<^verbatim>\<open>call(mod, opts)\<close>.  The result has three parts: the calls made to render hooks,
  the value returned or the error thrown, and the route cache as the call leaves it.
\<close>

definition call ::
  "Env \<Rightarrow> ComponentInstance option \<Rightarrow> EndpointOptions
     \<Rightarrow> HookCall list \<times> (error + EndpointCallResult) \<times> RouteCache" where
  "call env m opts =
     (case getParamsAndProps env m opts of
        (NoMatchingStaticPath, cache) \<Rightarrow>
          ([],
           Inl (Error (''[getStaticPath] route pattern matched, but no matching static path found. (''
                       @ CommonOptions.pathname opts @ '')'')),
           cache)
      | (ParamsAndProps params _, cache) \<Rightarrow>
          (case renderEndpoint env m (request opts) params of
             Inl e \<Rightarrow> ([], Inl e, cache)
           | Inr (EndpointResponse response) \<Rightarrow> ([], Inr (ResponseCallResult response), cache)
           | Inr (EndpointBody body) \<Rightarrow>
               (case runRenderHookPostProcessHtml (renderHooks opts) ''endpoint''
                       (CommonOptions.pathname opts) body (EndpointOptions.ssr opts) of
                  (calls, Inl e) \<Rightarrow> (calls, Inl e, cache)
                | (calls, Inr h) \<Rightarrow> (calls, Inr (SimpleCallResult h), cache))))"

section \<open>Platform functions\<close>

text \<open>
  \<^verbatim>\<open>TextEncoder.encode\<close>: the UTF-8 encoding.  A code point below 128 is one byte; a
  code point from 128 to 255 is two bytes.
\<close>

definition utf8 :: "char \<Rightarrow> byte list" where
  "utf8 c =
     (let n = (of_char c :: nat)
      in if n < 128 then [of_nat n]
         else [of_nat (192 + n div 64), of_nat (128 + n mod 64)])"

definition TextEncoder_encode :: "string \<Rightarrow> byte list" where
  "TextEncoder_encode s = concat (map utf8 s)"

text \<open>\<^verbatim>\<open>n.toString()\<close> for a non-negative integer: its decimal digits.\<close>

fun Number_toString :: "nat \<Rightarrow> string" where
  "Number_toString n =
     (if n < 10 then [''0123456789'' ! n]
      else Number_toString (n div 10) @ [''0123456789'' ! (n mod 10)])"

declare Number_toString.simps [simp del]

text \<open>
  \<^verbatim>\<open>headers.set(name, value)\<close> on a \<^verbatim>\<open>Headers\<close> object, kept as a list of name and
  value: a header that is present gets the new value, another is added at the end.
\<close>

definition Headers_set :: "string \<Rightarrow> string \<Rightarrow> (string \<times> string) list \<Rightarrow> (string \<times> string) list" where
  "Headers_set k v hs = AList.update k v hs"

text \<open>\<^verbatim>\<open>s.startsWith(p)\<close>.\<close>

definition startsWith :: "string \<Rightarrow> string \<Rightarrow> bool" where
  "startsWith s p = (take (length p) s = p)"

text \<open>
  \<^verbatim>\<open>new Map(entries)\<close>, as a list of key and value: a later entry with a key already
  present replaces that key's value.  \<^verbatim>\<open>map.get(k)\<close> is \<open>map_of\<close>.
\<close>

definition Map_new :: "('k \<times> 'v) list \<Rightarrow> ('k \<times> 'v) list" where
  "Map_new entries = fold (\<lambda>(k, v) m. AList.update k v m) entries []"

section \<open>The application (core/app/index.ts)\<close>

text \<open>
  The manifest, as far as the application reads it.  \<open>pageMap\<close> and \<open>entryModules\<close>
  are lookup tables; \<open>manifestSite\<close> is the optional \<^verbatim>\<open>manifest.site\<close>, and
  \<open>markdownRenderOptions\<close> is \<^verbatim>\<open>manifest.markdown.render\<close>.
\<close>

record RouteInfo =
  routeData :: RouteData
  infoLinks :: "string list"
  infoScripts :: "string list"

record SSRManifest =
  routes :: "RouteInfo list"
  manifestSite :: "string option"
  markdownRenderOptions :: MarkdownRenderOptions
  pageMap :: "(string \<times> ComponentInstance) list"
  manifestRenderers :: "SSRLoadedRenderer list"
  manifestRenderHooks :: "SSRLoadedRenderHook list"
  entryModules :: "(string \<times> string) list"

record ManifestData =
  dataRoutes :: "RouteData list"

text \<open>
  The private fields of \<^verbatim>\<open>App\<close> that are set by the constructor.  The two fields with
  a constant initialiser, \<^verbatim>\<open>#encoder\<close> and \<^verbatim>\<open>#logging\<close>, are the constants
  \<open>TextEncoder_encode\<close> and \<open>App_logging\<close>.  \<open>appRouteCache\<close> is \<^verbatim>\<open>#routeCache\<close>.
\<close>

record App =
  manifest :: SSRManifest
  manifestData :: ManifestData
  routeDataToRouteInfo :: "(RouteData \<times> RouteInfo) list"
  appRouteCache :: RouteCache

definition App_logging :: LogOptions where
  "App_logging = \<lparr>dest = ''consoleLogDestination'', level = ''info''\<rparr>"

text \<open>The constructor.\<close>

definition App_new :: "SSRManifest \<Rightarrow> App" where
  "App_new mf =
     \<lparr>manifest = mf,
      manifestData = \<lparr>dataRoutes = map routeData (routes mf)\<rparr>,
      routeDataToRouteInfo = Map_new (map (\<lambda>r. (routeData r, r)) (routes mf)),
      appRouteCache = RouteCache_new App_logging\<rparr>"

text \<open>
  Modelled from the spec: \<^verbatim>\<open>matchRoute\<close> of \<^verbatim>\<open>core/routing/match.js\<close> is not among
  the sources.  The spec (4.1): it "iterates manifest routes in declared order and
  returns the first pattern whose match succeeds", and "returns none (not an error) when
  nothing matches".
\<close>

definition matchRoute :: "Env \<Rightarrow> string \<Rightarrow> ManifestData \<Rightarrow> RouteData option" where
  "matchRoute env path md = find (\<lambda>r. patternTest env (RouteData.route r) path) (dataRoutes md)"

definition App_match :: "Env \<Rightarrow> App \<Rightarrow> Request \<Rightarrow> RouteData option" where
  "App_match env app req = matchRoute env (URL.pathname (url req)) (manifestData app)"

text \<open>
  The \<^verbatim>\<open>resolve\<close> callback that \<^verbatim>\<open>#renderPage\<close> hands to the renderer: a specifier
  that is not in \<^verbatim>\<open>manifest.entryModules\<close> is an error.
\<close>

definition App_resolve :: "Env \<Rightarrow> SSRManifest \<Rightarrow> string \<Rightarrow> error + string" where
  "App_resolve env mf specifier =
     (case map_of (entryModules mf) specifier of
        None \<Rightarrow> Inl (Error (''Unable to resolve ['' @ specifier @ '']''))
      | Some bundlePath \<Rightarrow>
          Inr (if startsWith bundlePath ''data:'' then bundlePath
               else prependForwardSlash env bundlePath))"

text \<open>The options object that \<^verbatim>\<open>#renderPage\<close> builds for the renderer.\<close>

definition renderPageOptions ::
  "Env \<Rightarrow> App \<Rightarrow> Request \<Rightarrow> RouteData \<Rightarrow> ComponentInstance option \<Rightarrow> RouteInfo \<Rightarrow> RenderOptions" where
  "renderPageOptions env app req rd m info =
     \<lparr>logging = App_logging,
      origin = URL.origin (url req),
      pathname = URL.pathname (url req),
      request = req,
      route = Some rd,
      routeCache = appRouteCache app,
      renderHooks = manifestRenderHooks (manifest app),
      site = manifestSite (manifest app),
      ssr = True,
      legacyBuild = False,
      links = createLinkStylesheetElementSet env (infoLinks info) (manifestSite (manifest app)),
      markdownRender = markdownRenderOptions (manifest app),
      module = m,
      renderers = manifestRenderers (manifest app),
      resolve = App_resolve env (manifest app),
      scripts = createModuleScriptElementWithSrcSet env (infoScripts info) (manifestSite (manifest app))\<rparr>"

text \<open>
  \<^verbatim>\<open>#renderPage\<close>.  \<^verbatim>\<open>this.#routeDataToRouteInfo.get(routeData)\<close> is \<^verbatim>\<open>undefined\<close>
  for a route that is not a key of the map, and reading \<^verbatim>\<open>info.links\<close> then throws
  a \<^verbatim>\<open>TypeError\<close>.  The application returned is the one the call leaves behind: its
  route cache is the cache as the renderer left it.
\<close>

definition renderPage ::
  "Env \<Rightarrow> App \<Rightarrow> Request \<Rightarrow> RouteData \<Rightarrow> ComponentInstance option \<Rightarrow> (error + Response) \<times> App" where
  "renderPage env app req rd m =
     (case map_of (routeDataToRouteInfo app) rd of
        None \<Rightarrow> (Inl (TypeError ''Cannot read properties of undefined (reading links)''), app)
      | Some info \<Rightarrow>
          (case coreRender env (renderPageOptions env app req rd m info) of
             (Inl e, cache) \<Rightarrow> (Inl e, app\<lparr>appRouteCache := cache\<rparr>)
           | (Inr (ResponseResult response), cache) \<Rightarrow>
               (Inr response, app\<lparr>appRouteCache := cache\<rparr>)
           | (Inr (HtmlResult h), cache) \<Rightarrow>
               (let bytes = TextEncoder_encode h
                in (Inr (NewResponse (Some bytes)
                          \<lparr>status = 200, statusText = [],
                           headers = [(''Content-Type'', ''text/html''),
                                      (''Content-Length'', Number_toString (length bytes))]\<rparr>),
                    app\<lparr>appRouteCache := cache\<rparr>))))"

text \<open>The options object that \<^verbatim>\<open>#callEndpoint\<close> builds; it sets no \<^verbatim>\<open>site\<close>.\<close>

definition callEndpointOptions :: "App \<Rightarrow> Request \<Rightarrow> RouteData \<Rightarrow> EndpointOptions" where
  "callEndpointOptions app req rd =
     \<lparr>logging = App_logging,
      origin = URL.origin (url req),
      pathname = URL.pathname (url req),
      request = req,
      route = Some rd,
      routeCache = appRouteCache app,
      renderHooks = manifestRenderHooks (manifest app),
      site = None,
      ssr = True\<rparr>"

text \<open>
  \<^verbatim>\<open>#callEndpoint\<close>.  \<^verbatim>\<open>if (mimeType)\<close> fails for \<^verbatim>\<open>null\<close> and for the empty
  string.
\<close>

definition callEndpoint ::
  "Env \<Rightarrow> App \<Rightarrow> Request \<Rightarrow> RouteData \<Rightarrow> ComponentInstance option \<Rightarrow> (error + Response) \<times> App" where
  "callEndpoint env app req rd m =
     (case call env m (callEndpointOptions app req rd) of
        (calls, Inl e, cache) \<Rightarrow> (Inl e, app\<lparr>appRouteCache := cache\<rparr>)
      | (calls, Inr (ResponseCallResult response), cache) \<Rightarrow>
          (Inr response, app\<lparr>appRouteCache := cache\<rparr>)
      | (calls, Inr (SimpleCallResult body), cache) \<Rightarrow>
          (let mimeType = getType env (URL.pathname (url req));
               hs = (case mimeType of
                       None \<Rightarrow> []
                     | Some t \<Rightarrow> if t \<noteq> [] then Headers_set ''Content-Type'' t [] else []);
               bytes = TextEncoder_encode body;
               hs' = Headers_set ''Content-Length'' (Number_toString (length bytes)) hs
            in (Inr (NewResponse (Some bytes) \<lparr>status = 200, statusText = [], headers = hs'\<rparr>),
                app\<lparr>appRouteCache := cache\<rparr>)))"

text \<open>
  \<^verbatim>\<open>App.render(request, routeData?)\<close>.  \<^verbatim>\<open>pageMap.get(routeData.component)\<close> may be
  \<^verbatim>\<open>undefined\<close>; the module is passed on as it is.
\<close>

definition App_render ::
  "Env \<Rightarrow> App \<Rightarrow> Request \<Rightarrow> RouteData option \<Rightarrow> (error + Response) \<times> App" where
  "App_render env app req routeDataArg =
     (case (case routeDataArg of Some rd \<Rightarrow> Some rd | None \<Rightarrow> App_match env app req) of
        None \<Rightarrow>
          (Inr (NewResponse None \<lparr>status = 404, statusText = ''Not found'', headers = []\<rparr>), app)
      | Some rd \<Rightarrow>
          (let m = map_of (pageMap (manifest app)) (component rd)
           in if type rd = ''page'' then renderPage env app req rd m
              else if type rd = ''endpoint'' then callEndpoint env app req rd m
              else (Inl (Error (''Unsupported route type ['' @ type rd @ ''].'')), app)))"

section \<open>The development renderer (core/render/dev/index.ts)\<close>

text \<open>\<^verbatim>\<open>s.includes(p)\<close>: \<open>p\<close> occurs in \<open>s\<close>.\<close>

fun String_includes :: "string \<Rightarrow> string \<Rightarrow> bool" where
  "String_includes [] p = (p = [])"
| "String_includes (c # s) p = (startsWith (c # s) p \<or> String_includes s p)"

text \<open>
  The two regular expressions of the file.  \<^verbatim>\<open>/svelte\?svelte&type=style/\<close> looks for
  a fixed text.  \<^verbatim>\<open>/<!doctype html/i\<close> looks for a fixed text whatever the case of
  its letters.
\<close>

definition toLowerASCII :: "char \<Rightarrow> char" where
  "toLowerASCII c =
     (case map_of (zip ''ABCDEFGHIJKLMNOPQRSTUVWXYZ'' ''abcdefghijklmnopqrstuvwxyz'') c of
        Some l \<Rightarrow> l
      | None \<Rightarrow> c)"

definition svelteStylesRE_test :: "string \<Rightarrow> bool" where
  "svelteStylesRE_test href = String_includes href ''svelte?svelte&type=style''"

definition doctypeRE_test :: "string \<Rightarrow> bool" where
  "doctypeRE_test h = String_includes (map toLowerASCII h) ''<!doctype html''"

text \<open>
  \<^verbatim>\<open>resolvedPath.replace(/.*?node_modules\/\.vite/, '/node_modules/.vite')\<close>.  The match
  starts as far left as it can and ends with the first \<^verbatim>\<open>node_modules/.vite\<close>; since
  \<^verbatim>\<open>.\<close> does not match a line terminator, it starts just after the last line terminator
  before that occurrence.  A path without an occurrence is left as it is.
\<close>

fun splitAtFirst :: "string \<Rightarrow> string \<Rightarrow> (string \<times> string) option" where
  "splitAtFirst p [] = (if p = [] then Some ([], []) else None)"
| "splitAtFirst p (c # s) =
     (if startsWith (c # s) p then Some ([], drop (length p) (c # s))
      else (case splitAtFirst p s of
              None \<Rightarrow> None
            | Some (pre, post) \<Rightarrow> Some (c # pre, post)))"

definition isLineTerminator :: "char \<Rightarrow> bool" where
  "isLineTerminator c = (c = CHR 0x0A \<or> c = CHR 0x0D)"

definition replaceViteDir :: "string \<Rightarrow> string" where
  "replaceViteDir path =
     (case splitAtFirst ''node_modules/.vite'' path of
        None \<Rightarrow> path
      | Some (pre, post) \<Rightarrow>
          rev (dropWhile (\<lambda>c. \<not> isLineTerminator c) (rev pre))
            @ ''/node_modules/.vite'' @ post)"

text \<open>The \<^verbatim>\<open>resolve\<close> callback that the development renderer hands to the core renderer.\<close>

definition dev_resolve :: "Env \<Rightarrow> ViteDevServer \<Rightarrow> string \<Rightarrow> error + string" where
  "dev_resolve env vs s =
     (case resolveUrl vs s of
        Inl e \<Rightarrow> Inl e
      | Inr (resolvedUrl, resolvedPath) \<Rightarrow>
          if String_includes resolvedPath ''node_modules/.vite'' then Inr (replaceViteDir resolvedPath)
          else if \<not> startsWith resolvedUrl ''.'' \<and> \<not> startsWith resolvedUrl ''/''
               then Inr (''/@id'' @ prependForwardSlash env resolvedUrl)
               else Inr (''/@fs'' @ prependForwardSlash env resolvedPath))"

text \<open>\<^verbatim>\<open>isLegacyBuild\<close> is the constant \<^verbatim>\<open>false\<close>.\<close>

definition isLegacyBuild :: bool where
  "isLegacyBuild = False"

definition moduleScript :: "string \<Rightarrow> SSRElement" where
  "moduleScript src =
     \<lparr>props = [(''type'', PropString ''module''), (''src'', PropString src)], children = []\<rparr>"

definition stylesheetLink :: "string \<Rightarrow> SSRElement" where
  "stylesheetLink href =
     \<lparr>props = [(''rel'', PropString ''stylesheet''), (''href'', PropString href),
               (''data-astro-injected'', PropBool True)],
      children = []\<rparr>"

text \<open>
  The \<^verbatim>\<open>scripts\<close> set at the point of the core render call, in insertion order: the
  hoisted scripts, the two HMR scripts, the head-inline scripts of the configuration, and
  the Svelte style modules.  Every element added is a new object, so nothing is merged.
\<close>

definition dev_scripts :: "Env \<Rightarrow> ComponentInstance \<Rightarrow> SSROptions \<Rightarrow> SSRElement list" where
  "dev_scripts env m ssrOpts =
     createModuleScriptElementWithSrcSet env
       (case metadata m of
          Some paths \<Rightarrow> if \<not> isLegacyBuild then paths else []
        | None \<Rightarrow> [])
       None
     @ (if metadata m \<noteq> None \<and> mode ssrOpts = Development \<and> \<not> isLegacyBuild
        then [moduleScript ''/@vite/client'', moduleScript (hmrPathname env)] else [])
     @ map (\<lambda>script. \<lparr>props = [], children = scriptContent script\<rparr>)
         (filter (\<lambda>script. stage script = ''head-inline'') (ctxScripts (astroConfig ssrOpts)))
     @ (if \<not> isLegacyBuild
        then map moduleScript
               (filter (\<lambda>href. mode ssrOpts = Development \<and> svelteStylesRE_test href)
                  (getStylesForURL env (filePath ssrOpts) (viteServer ssrOpts)))
        else [])"

definition dev_links :: "Env \<Rightarrow> SSROptions \<Rightarrow> SSRElement list" where
  "dev_links env ssrOpts =
     (if \<not> isLegacyBuild
      then map stylesheetLink
             (filter (\<lambda>href. \<not> (mode ssrOpts = Development \<and> svelteStylesRE_test href))
                (getStylesForURL env (filePath ssrOpts) (viteServer ssrOpts)))
      else [])"

text \<open>
  The \<^verbatim>\<open>site\<close> field of the options:
  \<^verbatim>\<open>astroConfig.site ? new URL(astroConfig.base, astroConfig.site).toString() : undefined\<close>.
  The test fails for a missing site and for the empty string; \<^verbatim>\<open>new URL\<close> can throw.
\<close>

definition dev_site :: "Env \<Rightarrow> SSROptions \<Rightarrow> error + string option" where
  "dev_site env ssrOpts =
     (case configSite (astroConfig ssrOpts) of
        None \<Rightarrow> Inr None
      | Some st \<Rightarrow>
          if st = [] then Inr None
          else (case resolveSite env (base (astroConfig ssrOpts)) st of
                  Inl e \<Rightarrow> Inl e
                | Inr u \<Rightarrow> Inr (Some u)))"

text \<open>The options object for the core renderer, given the value of \<^verbatim>\<open>site\<close>.\<close>

definition dev_renderOptions ::
  "Env \<Rightarrow> SSRLoadedRenderer list \<Rightarrow> SSRLoadedRenderHook list \<Rightarrow> ComponentInstance \<Rightarrow> SSROptions
     \<Rightarrow> string option \<Rightarrow> RenderOptions" where
  "dev_renderOptions env rs hooks m ssrOpts st =
     \<lparr>logging = logging ssrOpts,
      origin = CommonOptions.origin ssrOpts,
      pathname = CommonOptions.pathname ssrOpts,
      request = request ssrOpts,
      route = CommonOptions.route ssrOpts,
      routeCache = routeCache ssrOpts,
      renderHooks = hooks,
      site = st,
      ssr = isBuildingToSSR env (astroConfig ssrOpts),
      legacyBuild = isLegacyBuild,
      links = dev_links env ssrOpts,
      markdownRender = (''@astrojs/markdown-remark'', markdown (astroConfig ssrOpts)),
      module = Some m,
      renderers = rs,
      resolve = dev_resolve env (viteServer ssrOpts),
      scripts = dev_scripts env m ssrOpts\<rparr>"

text \<open>
  \<^verbatim>\<open>'<!DOCTYPE html>\n' + content\<close> concatenates a string and the object \<^verbatim>\<open>content\<close>.
  JavaScript converts the object to a string first; \<^verbatim>\<open>content\<close> is a plain object
  \<^verbatim>\<open>{ type, html }\<close>, and the string of a plain object is \<^verbatim>\<open>[object Object]\<close>, whatever
  its fields hold.
\<close>

definition Object_toString :: "RenderResponse \<Rightarrow> string" where
  "Object_toString obj = ''[object Object]''"

definition doctypeLine :: string where
  "doctypeLine = ''<!DOCTYPE html>'' @ [CHR 0x0A]"

text \<open>
  \<^verbatim>\<open>render(renderers, renderHooks, mod, ssrOpts)\<close>.  The result is the value returned or
  the error thrown, and the route cache as the call leaves it.  Both blocks that push to
  \<^verbatim>\<open>tags\<close> are guarded by \<^verbatim>\<open>isLegacyBuild\<close>, so \<^verbatim>\<open>tags\<close> is empty when
  \<^verbatim>\<open>injectTags\<close> is called.
\<close>

definition render ::
  "Env \<Rightarrow> SSRLoadedRenderer list \<Rightarrow> SSRLoadedRenderHook list \<Rightarrow> ComponentInstance \<Rightarrow> SSROptions
     \<Rightarrow> (error + RenderResponse) \<times> RouteCache" where
  "render env rs hooks m ssrOpts =
     (case dev_site env ssrOpts of
        Inl e \<Rightarrow> (Inl e, routeCache ssrOpts)
      | Inr st \<Rightarrow>
          (case coreRender env (dev_renderOptions env rs hooks m ssrOpts st) of
             (Inl e, cache) \<Rightarrow> (Inl e, cache)
           | (Inr content, cache) \<Rightarrow>
               (case content of
                  ResponseResult response \<Rightarrow> (Inr content, cache)
                | HtmlResult contentHtml \<Rightarrow>
                    if (case CommonOptions.route ssrOpts of
                          Some r \<Rightarrow> type r = ''endpoint''
                        | None \<Rightarrow> False)
                    then (Inr content, cache)
                    else (let tags = [];
                              h = injectTags env contentHtml tags;
                              h' = (if \<not> doctypeRE_test h then doctypeLine @ Object_toString content
                                    else h)
                          in (Inr (HtmlResult h'), cache)))))"

section \<open>Example inputs\<close>

text \<open>Concrete hooks, used to run the theorems below on actual inputs.\<close>

definition ex_hook_empty :: SSRLoadedRenderHook where
  "ex_hook_empty = \<lparr>name = ''blank'', hookEntrypoint = ''./blank.js'', options = [],
      ssr = \<lparr>postProcessHtml = Some (\<lambda>args. Inr (Html []))\<rparr>\<rparr>"

definition ex_hook_banner :: SSRLoadedRenderHook where
  "ex_hook_banner = \<lparr>name = ''banner'', hookEntrypoint = ''./banner.js'', options = [],
      ssr = \<lparr>postProcessHtml = Some (\<lambda>args. Inr (Html (''<!-- x -->'' @ html args)))\<rparr>\<rparr>"

definition ex_hook_throw :: SSRLoadedRenderHook where
  "ex_hook_throw = \<lparr>name = ''boom'', hookEntrypoint = ''./boom.js'', options = [],
      ssr = \<lparr>postProcessHtml = Some (\<lambda>args. Inl (Error ''boom''))\<rparr>\<rparr>"

definition ex_hook_none :: SSRLoadedRenderHook where
  "ex_hook_none = \<lparr>name = ''idle'', hookEntrypoint = ''./idle.js'', options = [],
      ssr = \<lparr>postProcessHtml = None\<rparr>\<rparr>"

text \<open>A request, three routes, an environment and endpoint options.\<close>

definition ex_request :: "string \<Rightarrow> Request" where
  "ex_request path =
     \<lparr>httpMethod = ''GET'', url = \<lparr>URL.origin = ''http://localhost:3000'', URL.pathname = path\<rparr>\<rparr>"

definition ex_route_home :: RouteData where
  "ex_route_home =
     \<lparr>RouteData.route = ''/'', type = ''page'', component = ''src/pages/index.astro'',
      staticPaths = Some [''/'']\<rparr>"

definition ex_route_api :: RouteData where
  "ex_route_api =
     \<lparr>RouteData.route = ''/api/data.json'', type = ''endpoint'', component = ''src/pages/api/data.json.ts'',
      staticPaths = None\<rparr>"

definition ex_route_products :: RouteData where
  "ex_route_products =
     \<lparr>RouteData.route = ''/products/[id]'', type = ''endpoint'', component = ''src/pages/products/[id].ts'',
      staticPaths = Some [''/products/1'', ''/products/2'']\<rparr>"

definition ex_env :: Env where
  "ex_env =
     \<lparr>patternTest = (\<lambda>p path. p = path \<or> (p = ''/products/[id]'' \<and> startsWith path ''/products/'')),
      computeParamsAndProps = (\<lambda>r path. ([], [])),
      renderEndpoint = (\<lambda>m req params. Inr (EndpointBody ''{}'')),
      coreRender = (\<lambda>opts. (Inr (HtmlResult ''<h1>Hi</h1>''), routeCache opts)),
      createLinkStylesheetElementSet = (\<lambda>hrefs st. map stylesheetLink hrefs),
      createModuleScriptElementWithSrcSet = (\<lambda>srcs st. map moduleScript srcs),
      prependForwardSlash = (\<lambda>p. if startsWith p ''/'' then p else ''/'' @ p),
      getType = (\<lambda>path. if path = ''/api/data.json'' then Some ''application/json'' else None),
      getStylesForURL = (\<lambda>file vs. []),
      injectTags = (\<lambda>h tags. h),
      isBuildingToSSR = (\<lambda>cfg. False),
      hmrPathname = ''/runtime/client/hmr.js'',
      resolveSite = (\<lambda>b st. Inr (st @ b))\<rparr>"

definition ex_endpointOptions :: "RouteData \<Rightarrow> string \<Rightarrow> SSRLoadedRenderHook list \<Rightarrow> EndpointOptions" where
  "ex_endpointOptions rd path hooks =
     \<lparr>logging = App_logging, origin = ''http://localhost:3000'', pathname = path,
      request = ex_request path, route = Some rd, routeCache = [],
      renderHooks = hooks, site = None, ssr = False\<rparr>"

text \<open>
  A manifest with the three routes, a route of an unsupported kind, and a page body with a
  character outside ASCII.
\<close>

definition ex_manifest :: SSRManifest where
  "ex_manifest =
     \<lparr>routes =
        [\<lparr>routeData = ex_route_home, infoLinks = [''/assets/home.css''], infoScripts = []\<rparr>,
         \<lparr>routeData = ex_route_api, infoLinks = [], infoScripts = []\<rparr>,
         \<lparr>routeData = ex_route_products, infoLinks = [], infoScripts = []\<rparr>],
      manifestSite = None,
      markdownRenderOptions = (''@astrojs/markdown-remark'', []),
      pageMap =
        [(''src/pages/index.astro'', \<lparr>moduleId = ''index'', metadata = None\<rparr>),
         (''src/pages/api/data.json.ts'', \<lparr>moduleId = ''data'', metadata = None\<rparr>)],
      manifestRenderers = [],
      manifestRenderHooks = [ex_hook_none],
      entryModules = []\<rparr>"

definition ex_route_feed :: RouteData where
  "ex_route_feed =
     \<lparr>RouteData.route = ''/feed'', type = ''redirect'', component = ''src/pages/feed.ts'',
      staticPaths = None\<rparr>"

definition ex_cafe :: string where
  "ex_cafe = ''<p>caf'' @ [CHR 0xE9] @ ''</p>''"

text \<open>
  An environment whose core renderer tells, in the page it renders, whether the route cache
  it was handed is empty.
\<close>

definition ex_env_probe :: Env where
  "ex_env_probe =
     ex_env\<lparr>coreRender :=
       (\<lambda>opts. (Inr (HtmlResult (if routeCache opts = [] then ''fresh'' else ''seen'')),
                routeCache opts))\<rparr>"

text \<open>Options and a module for the development renderer.\<close>

definition ex_ssrOptions :: SSROptions where
  "ex_ssrOptions =
     \<lparr>logging = App_logging, origin = ''http://localhost:3000'', pathname = ''/'',
      request = ex_request ''/'', route = Some ex_route_home, routeCache = [],
      astroConfig = \<lparr>configSite = None, base = ''/'', markdown = [], ctxScripts = []\<rparr>,
      filePath = ''/project/src/pages/index.astro'',
      mode = Development,
      viteServer = \<lparr>serverId = ''vite'', resolveUrl = (\<lambda>s. Inr (s, s))\<rparr>\<rparr>"

definition ex_module :: ComponentInstance where
  "ex_module = \<lparr>moduleId = ''index'', metadata = None\<rparr>"

section \<open>Properties of the render hook pipeline\<close>

lemma postProcessLoop_append:
  "postProcessLoop (xs @ ys) rt pn s cur calls =
     (case postProcessLoop xs rt pn s cur calls of
        (c, Inl e) \<Rightarrow> (c, Inl e)
      | (c, Inr h) \<Rightarrow> postProcessLoop ys rt pn s h c)"
  by (induction xs arbitrary: cur calls) (auto split: option.splits sum.splits simp: Let_def)

lemma postProcessLoop_filter:
  "postProcessLoop (filter hasPostProcessHtml hs) rt pn s cur calls =
   postProcessLoop hs rt pn s cur calls"
  by (induction hs arbitrary: cur calls)
     (auto simp: hasPostProcessHtml_def Let_def split: option.splits sum.splits)

text \<open>The resulting HTML does not depend on the call log the loop starts with.\<close>

lemma postProcessLoop_result_calls:
  "snd (postProcessLoop hs rt pn s cur calls) = snd (postProcessLoop hs rt pn s cur calls')"
proof (induction hs arbitrary: cur calls calls')
  case Nil
  show ?case by simp
next
  case (Cons h hs)
  show ?case
  proof (cases "postProcessHtml (SSRLoadedRenderHook.ssr h)")
    case None
    then show ?thesis using Cons.IH by simp
  next
    case (Some f)
    then show ?thesis using Cons.IH by (simp add: Let_def split: sum.splits)
  qed
qed

lemma postProcessLoop_nonempty:
  "cur \<noteq> [] \<Longrightarrow> snd (postProcessLoop hs rt pn s cur calls) = Inr out \<Longrightarrow> out \<noteq> []"
proof (induction hs arbitrary: cur calls)
  case Nil
  then show ?case by simp
next
  case (Cons h hs)
  show ?case
  proof (cases "postProcessHtml (SSRLoadedRenderHook.ssr h)")
    case None
    then show ?thesis using Cons by simp
  next
    case (Some f)
    show ?thesis
    proof (cases "f \<lparr>routeType = rt, pathname = pn, html = cur, ssr = s,
                       options = SSRLoadedRenderHook.options h\<rparr>")
      case (Inl e)
      then show ?thesis using Some Cons.prems by (simp add: Let_def)
    next
      case (Inr v)
      then show ?thesis using Some Cons.prems Cons.IH
        by (cases v) (auto simp: Let_def split: if_splits)
    qed
  qed
qed

text \<open>
  Claim C2.  Running a list of render hooks gives the same outcome (the same final HTML or
  the same error, and the same calls made) as running only those hooks of the list that
  have a \<^verbatim>\<open>postProcessHtml\<close>: a hook without one is skipped and changes nothing.  With
  no hooks at all the function returns the HTML it was given and calls nothing.
\<close>

theorem runRenderHookPostProcessHtml_effective_subset:
  "runRenderHookPostProcessHtml (filter hasPostProcessHtml H) rt pn h s =
     runRenderHookPostProcessHtml H rt pn h s
   \<and> runRenderHookPostProcessHtml [] rt pn h s = ([], Inr h)"
  by (simp add: runRenderHookPostProcessHtml_def postProcessLoop_filter)

text \<open>
  Claim C10.  A hook whose \<^verbatim>\<open>postProcessHtml\<close> returns a falsy value, \<^verbatim>\<open>undefined\<close> or
  the empty string, is a no-op: the hooks after it receive the HTML that was current
  before it, and the final result is the one the list without that hook gives.  Hence a
  non-empty document never comes out of the hooks as the empty string.
\<close>

theorem falsy_return_is_noop:
  "(postProcessHtml (SSRLoadedRenderHook.ssr hk) = Some f
      \<and> snd (runRenderHookPostProcessHtml pre rt pn h s) = Inr h1
      \<and> f \<lparr>routeType = rt, pathname = pn, html = h1, ssr = s,
            options = SSRLoadedRenderHook.options hk\<rparr> = Inr v
      \<and> \<not> truthy v
    \<longrightarrow> snd (runRenderHookPostProcessHtml (pre @ hk # suf) rt pn h s)
          = snd (runRenderHookPostProcessHtml suf rt pn h1 s)
        \<and> snd (runRenderHookPostProcessHtml (pre @ hk # suf) rt pn h s)
          = snd (runRenderHookPostProcessHtml (pre @ suf) rt pn h s))
   \<and> (h \<noteq> [] \<and> snd (runRenderHookPostProcessHtml hs rt pn h s) = Inr out \<longrightarrow> out \<noteq> [])
   \<and> \<not> truthy (Html []) \<and> \<not> truthy Undefined"
proof -
  have step: "snd (postProcessLoop (hk # suf) rt pn s h1 c) = snd (postProcessLoop suf rt pn s h1 [])"
    if p1: "postProcessHtml (SSRLoadedRenderHook.ssr hk) = Some f"
      and p3: "f \<lparr>routeType = rt, pathname = pn, html = h1, ssr = s,
              options = SSRLoadedRenderHook.options hk\<rparr> = Inr v"
      and p4: "\<not> truthy v" for c
    using p1 p3 p4 postProcessLoop_result_calls [of suf rt pn s h1 _ "[]"]
    by (simp add: Let_def)
  have a: "snd (runRenderHookPostProcessHtml (pre @ hk # suf) rt pn h s)
            = snd (runRenderHookPostProcessHtml suf rt pn h1 s)"
    if p1: "postProcessHtml (SSRLoadedRenderHook.ssr hk) = Some f"
      and p2: "snd (runRenderHookPostProcessHtml pre rt pn h s) = Inr h1"
      and p3: "f \<lparr>routeType = rt, pathname = pn, html = h1, ssr = s,
              options = SSRLoadedRenderHook.options hk\<rparr> = Inr v"
      and p4: "\<not> truthy v"
  proof -
    obtain c where c: "postProcessLoop pre rt pn s h [] = (c, Inr h1)"
      using p2 by (cases "postProcessLoop pre rt pn s h []") (simp add: runRenderHookPostProcessHtml_def)
    show ?thesis
      using step [OF p1 p3 p4, of c] c
      by (simp add: runRenderHookPostProcessHtml_def postProcessLoop_append)
  qed
  have b: "snd (runRenderHookPostProcessHtml (pre @ suf) rt pn h s)
            = snd (runRenderHookPostProcessHtml suf rt pn h1 s)"
    if p2: "snd (runRenderHookPostProcessHtml pre rt pn h s) = Inr h1"
  proof -
    obtain c where c: "postProcessLoop pre rt pn s h [] = (c, Inr h1)"
      using p2 by (cases "postProcessLoop pre rt pn s h []") (simp add: runRenderHookPostProcessHtml_def)
    show ?thesis
      using c postProcessLoop_result_calls [of suf rt pn s h1 c "[]"]
      by (simp add: runRenderHookPostProcessHtml_def postProcessLoop_append)
  qed
  have n: "out \<noteq> []"
    if q1: "h \<noteq> []" and q2: "snd (runRenderHookPostProcessHtml hs rt pn h s) = Inr out"
    using q1 q2 postProcessLoop_nonempty [of h hs rt pn s "[]" out]
    by (simp add: runRenderHookPostProcessHtml_def)
  show ?thesis using a b n by simp
qed

theorem falsy_return_is_noop_witness:
  "snd (runRenderHookPostProcessHtml ([ex_hook_banner] @ ex_hook_empty # [ex_hook_banner])
          ''endpoint'' ''/a'' ''<p>x</p>'' True)
     = Inr ''<!-- x --><!-- x --><p>x</p>''
   \<and> snd (runRenderHookPostProcessHtml ([ex_hook_banner] @ [ex_hook_banner])
          ''endpoint'' ''/a'' ''<p>x</p>'' True)
     = Inr ''<!-- x --><!-- x --><p>x</p>''
   \<and> snd (runRenderHookPostProcessHtml [ex_hook_empty] ''endpoint'' ''/a'' ''<p>x</p>'' True)
     = Inr ''<p>x</p>''"
  using falsy_return_is_noop [of ex_hook_empty "\<lambda>args. Inr (Html [])" "[ex_hook_banner]"
      "''endpoint''" "''/a''" "''<p>x</p>''" True "''<!-- x --><p>x</p>''" "Html []"
      "[ex_hook_banner]" "[ex_hook_empty]" "''<p>x</p>''"]
  by (simp add: runRenderHookPostProcessHtml_def ex_hook_empty_def ex_hook_banner_def)

section \<open>Properties of the endpoint invoker\<close>

lemma String_includes_startsWith: "startsWith s p \<Longrightarrow> String_includes s p"
  by (cases s) (auto simp: startsWith_def)

lemma String_includes_append: "String_includes (a @ p @ b) p"
proof (induction a)
  case Nil
  show ?case by (rule String_includes_startsWith) (simp add: startsWith_def)
next
  case (Cons c a)
  then show ?case by simp
qed

text \<open>
  Claim C1.  When the params resolve and the handler returns a \<^verbatim>\<open>Response\<close> object,
  \<^verbatim>\<open>call\<close> returns a result of kind \<^verbatim>\<open>response\<close> that holds that very object, and it
  makes no call to any hook's \<^verbatim>\<open>postProcessHtml\<close>, whatever hooks the options carry.
\<close>

theorem call_response_passthrough:
  assumes "fst (getParamsAndProps env m opts) = ParamsAndProps params pageProps"
    and "renderEndpoint env m (request opts) params = Inr (EndpointResponse response)"
  shows "call env m opts =
           ([], Inr (ResponseCallResult response), snd (getParamsAndProps env m opts))"
  using assms by (cases "getParamsAndProps env m opts") (simp add: call_def)

theorem call_response_passthrough_witness:
  "call (ex_env\<lparr>renderEndpoint := (\<lambda>m req params. Inr (EndpointResponse (ResponseObject 1)))\<rparr>)
        None (ex_endpointOptions ex_route_api ''/api/data.json'' [ex_hook_throw])
     = ([], Inr (ResponseCallResult (ResponseObject 1)),
        [((ex_route_api, ''/api/data.json''), CachedParamsAndProps [] [])])"
  using call_response_passthrough
    [of "ex_env\<lparr>renderEndpoint := (\<lambda>m req params. Inr (EndpointResponse (ResponseObject 1)))\<rparr>"
        None "ex_endpointOptions ex_route_api ''/api/data.json'' [ex_hook_throw]" "[]" "[]"
        "ResponseObject 1"]
  by (simp add: getParamsAndProps_def ex_env_def ex_endpointOptions_def ex_route_api_def)

text \<open>
  Claim C3.  For a statically generated route and a request pathname outside the route's
  static paths, \<^verbatim>\<open>call\<close> throws: the error's message ends with the pathname in
  parentheses, so the pathname occurs in it.
\<close>

theorem call_no_matching_static_path:
  assumes "route opts = Some r"
    and "staticPaths r = Some paths"
    and "CommonOptions.pathname opts \<notin> set paths"
  shows "\<exists>msg cache. call env m opts = ([], Inl (Error msg), cache)
           \<and> msg = ''[getStaticPath] route pattern matched, but no matching static path found. (''
                     @ CommonOptions.pathname opts @ '')''
           \<and> String_includes msg (CommonOptions.pathname opts)"
  using assms String_includes_append
    [of "''[getStaticPath] route pattern matched, but no matching static path found. (''"
        "CommonOptions.pathname opts" "'')''"]
  by (simp add: call_def getParamsAndProps_def Let_def)

theorem call_no_matching_static_path_witness:
  "\<exists>msg cache. call ex_env None (ex_endpointOptions ex_route_products ''/products/3'' [])
        = ([], Inl (Error msg), cache)
      \<and> msg = ''[getStaticPath] route pattern matched, but no matching static path found. (/products/3)''
      \<and> String_includes msg ''/products/3''"
  using call_no_matching_static_path
    [of "ex_endpointOptions ex_route_products ''/products/3'' []" ex_route_products
        "[''/products/1'', ''/products/2'']" ex_env None]
  by (simp add: ex_endpointOptions_def ex_route_products_def)

section \<open>Properties of the application\<close>

text \<open>
  Claim C4.  When no route of the manifest accepts the request's pathname and no route is
  handed in, \<^verbatim>\<open>App.render\<close> returns a response with status 404 and no body; it throws
  nothing and leaves the application as it was.
\<close>

theorem App_render_not_found:
  assumes "\<forall>r \<in> set (dataRoutes (manifestData app)).
             \<not> patternTest env (RouteData.route r) (URL.pathname (url req))"
  shows "App_render env app req None =
           (Inr (NewResponse None \<lparr>status = 404, statusText = ''Not found'', headers = []\<rparr>), app)"
proof -
  have "App_match env app req = None"
    using assms by (simp add: App_match_def matchRoute_def find_None_iff)
  then show ?thesis by (simp add: App_render_def)
qed

theorem App_render_not_found_witness:
  "App_render ex_env (App_new ex_manifest) (ex_request ''/does-not-exist'') None =
     (Inr (NewResponse None \<lparr>status = 404, statusText = ''Not found'', headers = []\<rparr>),
      App_new ex_manifest)"
  using App_render_not_found [of "App_new ex_manifest" ex_env "ex_request ''/does-not-exist''"]
  by (simp add: App_new_def ex_manifest_def ex_env_def ex_request_def ex_route_home_def
        ex_route_api_def ex_route_products_def startsWith_def)


text \<open>
  Claim C7.  Whenever the page render of \<^verbatim>\<open>App.render\<close> yields a result of kind
  \<^verbatim>\<open>html\<close>, the response has status 200, the UTF-8 encoding of the HTML as its body, a
  \<^verbatim>\<open>Content-Type\<close> of \<^verbatim>\<open>text/html\<close> and a \<^verbatim>\<open>Content-Length\<close> that is the number of
  bytes of that encoding, in decimal.
\<close>

theorem App_render_html_response:
  assumes "routeDataArg = Some rd \<or> (routeDataArg = None \<and> App_match env app req = Some rd)"
    and "type rd = ''page''"
    and "map_of (routeDataToRouteInfo app) rd = Some info"
    and "coreRender env
           (renderPageOptions env app req rd (map_of (pageMap (manifest app)) (component rd)) info)
         = (Inr (HtmlResult h), cache)"
  shows "fst (App_render env app req routeDataArg) =
           Inr (NewResponse (Some (TextEncoder_encode h))
                  \<lparr>status = 200, statusText = [],
                   headers = [(''Content-Type'', ''text/html''),
                              (''Content-Length'', Number_toString (length (TextEncoder_encode h)))]\<rparr>)"
  using assms by (auto simp: App_render_def renderPage_def Let_def)

theorem App_render_html_response_witness:
  "fst (App_render (ex_env\<lparr>coreRender := (\<lambda>opts. (Inr (HtmlResult ex_cafe), routeCache opts))\<rparr>)
         (App_new ex_manifest) (ex_request ''/'') None) =
     Inr (NewResponse (Some [60, 112, 62, 99, 97, 102, 195, 169, 60, 47, 112, 62])
            \<lparr>status = 200, statusText = [],
             headers = [(''Content-Type'', ''text/html''), (''Content-Length'', ''12'')]\<rparr>)"
proof -
  have enc: "TextEncoder_encode ex_cafe = [60, 112, 62, 99, 97, 102, 195, 169, 60, 47, 112, 62]"
    by (simp add: TextEncoder_encode_def utf8_def ex_cafe_def)
  have len: "length [60, 112, 62, 99, 97, 102, 195, 169, 60, 47, 112, 62 :: byte] = 12"
    by simp
  have num: "Number_toString 12 = ''12''"
    by (simp add: Number_toString.simps)
  have "fst (App_render (ex_env\<lparr>coreRender := (\<lambda>opts. (Inr (HtmlResult ex_cafe), routeCache opts))\<rparr>)
              (App_new ex_manifest) (ex_request ''/'') None) =
          Inr (NewResponse (Some (TextEncoder_encode ex_cafe))
                 \<lparr>status = 200, statusText = [],
                  headers = [(''Content-Type'', ''text/html''),
                             (''Content-Length'',
                              Number_toString (length (TextEncoder_encode ex_cafe)))]\<rparr>)"
    by (rule App_render_html_response
          [of None ex_route_home _ _ _
              "\<lparr>routeData = ex_route_home, infoLinks = [''/assets/home.css''], infoScripts = []\<rparr>"
              _ "[]"])
       (simp_all add: App_match_def matchRoute_def App_new_def Map_new_def ex_manifest_def
          ex_env_def ex_request_def ex_route_home_def ex_route_api_def ex_route_products_def
          renderPageOptions_def RouteCache_new_def)
  then show ?thesis by (simp only: enc len num)
qed

text \<open>
  Claim C8.  Whenever the endpoint call of \<^verbatim>\<open>App.render\<close> yields a body of kind
  \<^verbatim>\<open>simple\<close>, the response has status 200, the encoded body, and a \<^verbatim>\<open>Content-Length\<close>
  that is the number of bytes of the encoding.  Its \<^verbatim>\<open>Content-Type\<close> is the MIME type that
  \<^verbatim>\<open>mime.getType\<close> gives for the request's pathname; when \<^verbatim>\<open>mime.getType\<close> knows none,
  the response has no \<^verbatim>\<open>Content-Type\<close> header.
\<close>

theorem App_render_simple_response:
  assumes "routeDataArg = Some rd \<or> (routeDataArg = None \<and> App_match env app req = Some rd)"
    and "type rd = ''endpoint''"
    and "call env (map_of (pageMap (manifest app)) (component rd)) (callEndpointOptions app req rd)
         = (calls, Inr (SimpleCallResult body), cache)"
  shows "fst (App_render env app req routeDataArg) =
           Inr (NewResponse (Some (TextEncoder_encode body))
                  \<lparr>status = 200, statusText = [],
                   headers =
                     (case getType env (URL.pathname (url req)) of
                        None \<Rightarrow> []
                      | Some t \<Rightarrow> if t = [] then [] else [(''Content-Type'', t)])
                     @ [(''Content-Length'',
                         Number_toString (length (TextEncoder_encode body)))]\<rparr>)"
  using assms
  by (auto simp: App_render_def callEndpoint_def Let_def Headers_set_def split: option.splits)

theorem App_render_simple_response_witness:
  "fst (App_render ex_env (App_new ex_manifest) (ex_request ''/api/data.json'') None) =
     Inr (NewResponse (Some [123, 125])
            \<lparr>status = 200, statusText = [],
             headers = [(''Content-Type'', ''application/json''), (''Content-Length'', ''2'')]\<rparr>)
   \<and> fst (App_render (ex_env\<lparr>getType := (\<lambda>path. None)\<rparr>) (App_new ex_manifest)
            (ex_request ''/api/data.json'') None) =
     Inr (NewResponse (Some [123, 125])
            \<lparr>status = 200, statusText = [], headers = [(''Content-Length'', ''2'')]\<rparr>)"
proof -
  have enc: "TextEncoder_encode ''{}'' = [123, 125]"
    by (simp add: TextEncoder_encode_def utf8_def)
  have len: "length [123, 125 :: byte] = 2"
    by simp
  have num: "Number_toString 2 = ''2''"
    by (simp add: Number_toString.simps)
  have c: "call (ex_env\<lparr>getType := g\<rparr>)
             (map_of (pageMap (manifest (App_new ex_manifest))) (component ex_route_api))
             (callEndpointOptions (App_new ex_manifest) (ex_request ''/api/data.json'') ex_route_api)
           = ([], Inr (SimpleCallResult ''{}''),
              [((ex_route_api, ''/api/data.json''), CachedParamsAndProps [] [])])" for g
    by (simp add: call_def getParamsAndProps_def callEndpointOptions_def App_new_def
          ex_manifest_def ex_env_def ex_request_def ex_route_api_def RouteCache_new_def
          runRenderHookPostProcessHtml_def ex_hook_none_def)
  have m: "App_match (ex_env\<lparr>getType := g\<rparr>) (App_new ex_manifest) (ex_request ''/api/data.json'')
           = Some ex_route_api" for g
    by (simp add: App_match_def matchRoute_def App_new_def ex_manifest_def ex_env_def
          ex_request_def ex_route_home_def ex_route_api_def)
  have t: "type ex_route_api = ''endpoint''"
    by (simp add: ex_route_api_def)
  have e: "ex_env\<lparr>getType := getType ex_env\<rparr> = ex_env"
    by simp
  have a: "fst (App_render ex_env (App_new ex_manifest) (ex_request ''/api/data.json'') None) =
             Inr (NewResponse (Some (TextEncoder_encode ''{}''))
                    \<lparr>status = 200, statusText = [],
                     headers = [(''Content-Type'', ''application/json'')]
                       @ [(''Content-Length'', Number_toString (length (TextEncoder_encode ''{}'')))]\<rparr>)"
    using App_render_simple_response
      [of None ex_route_api ex_env "App_new ex_manifest" "ex_request ''/api/data.json''",
       OF _ t] c [of "getType ex_env"] m [of "getType ex_env"]
    by (simp add: e) (simp add: ex_env_def ex_request_def)
  have b: "fst (App_render (ex_env\<lparr>getType := (\<lambda>path. None)\<rparr>) (App_new ex_manifest)
                  (ex_request ''/api/data.json'') None) =
             Inr (NewResponse (Some (TextEncoder_encode ''{}''))
                    \<lparr>status = 200, statusText = [],
                     headers = []
                       @ [(''Content-Length'', Number_toString (length (TextEncoder_encode ''{}'')))]\<rparr>)"
    using App_render_simple_response
      [of None ex_route_api "ex_env\<lparr>getType := (\<lambda>path. None)\<rparr>" "App_new ex_manifest"
          "ex_request ''/api/data.json''", OF _ t] c [of "\<lambda>path. None"] m [of "\<lambda>path. None"]
    by simp
  show ?thesis using a b by (simp only: enc len num append.simps)
qed

text \<open>Replacing a function that a path does not call leaves that path as it is.\<close>

lemma App_match_renderEndpoint_update:
  "App_match (env\<lparr>renderEndpoint := re\<rparr>) app req = App_match env app req"
  by (simp add: App_match_def matchRoute_def)

lemma App_match_coreRender_update:
  "App_match (env\<lparr>coreRender := cr\<rparr>) app req = App_match env app req"
  by (simp add: App_match_def matchRoute_def)

lemma App_resolve_renderEndpoint_update:
  "App_resolve (env\<lparr>renderEndpoint := re\<rparr>) mf = App_resolve env mf"
  by (rule ext) (simp add: App_resolve_def cong: option.case_cong if_cong)

lemma renderPageOptions_renderEndpoint_update:
  "renderPageOptions (env\<lparr>renderEndpoint := re\<rparr>) app req rd m info =
   renderPageOptions env app req rd m info"
  by (simp add: renderPageOptions_def App_resolve_renderEndpoint_update)

lemma renderPage_renderEndpoint_update:
  "renderPage (env\<lparr>renderEndpoint := re\<rparr>) app req rd m = renderPage env app req rd m"
  by (simp add: renderPage_def renderPageOptions_renderEndpoint_update cong: option.case_cong)

lemma getParamsAndProps_coreRender_update:
  "getParamsAndProps (env\<lparr>coreRender := cr\<rparr>) m opts = getParamsAndProps env m opts"
  by (simp add: getParamsAndProps_def cong: option.case_cong if_cong RouteCacheEntry.case_cong)

lemma call_coreRender_update:
  "call (env\<lparr>coreRender := cr\<rparr>) m opts = call env m opts"
  by (simp add: call_def getParamsAndProps_coreRender_update
        cong: prod.case_cong GetParamsAndPropsResult.case_cong)

lemma callEndpoint_coreRender_update:
  "callEndpoint (env\<lparr>coreRender := cr\<rparr>) app req rd m = callEndpoint env app req rd m"
  by (simp add: callEndpoint_def call_coreRender_update
        cong: prod.case_cong sum.case_cong EndpointCallResult.case_cong)

text \<open>
  Claim C9.  For the route that \<^verbatim>\<open>App.render\<close> works on: a kind other than \<^verbatim>\<open>page\<close>
  and \<^verbatim>\<open>endpoint\<close> makes it throw, which is not a 404 response; the kind \<^verbatim>\<open>page\<close> makes
  it the page render and nothing of the endpoint path (the outcome is the same whatever
  \<^verbatim>\<open>renderEndpoint\<close> would do); the kind \<^verbatim>\<open>endpoint\<close> makes it the endpoint call and
  nothing of the page path (the outcome is the same whatever the core renderer would do).
\<close>

theorem App_render_dispatch:
  assumes "routeDataArg = Some rd \<or> (routeDataArg = None \<and> App_match env app req = Some rd)"
  shows "(type rd \<noteq> ''page'' \<and> type rd \<noteq> ''endpoint'' \<longrightarrow>
            App_render env app req routeDataArg =
              (Inl (Error (''Unsupported route type ['' @ type rd @ ''].'')), app))
       \<and> (type rd = ''page'' \<longrightarrow>
            App_render env app req routeDataArg =
              renderPage env app req rd (map_of (pageMap (manifest app)) (component rd))
            \<and> (\<forall>re. App_render (env\<lparr>renderEndpoint := re\<rparr>) app req routeDataArg =
                      App_render env app req routeDataArg))
       \<and> (type rd = ''endpoint'' \<longrightarrow>
            App_render env app req routeDataArg =
              callEndpoint env app req rd (map_of (pageMap (manifest app)) (component rd))
            \<and> (\<forall>cr. App_render (env\<lparr>coreRender := cr\<rparr>) app req routeDataArg =
                      App_render env app req routeDataArg))"
proof -
  have sel: "(case routeDataArg of Some r \<Rightarrow> Some r | None \<Rightarrow> App_match e app req) = Some rd"
    if "App_match e app req = App_match env app req" for e
    using assms that by auto
  have unsupported: "App_render env app req routeDataArg =
      (Inl (Error (''Unsupported route type ['' @ type rd @ ''].'')), app)"
    if "type rd \<noteq> ''page''" and "type rd \<noteq> ''endpoint''"
    using that sel [of env] by (simp add: App_render_def)
  have page: "App_render e app req routeDataArg =
      renderPage e app req rd (map_of (pageMap (manifest app)) (component rd))"
    if "type rd = ''page''" and "App_match e app req = App_match env app req" for e
    using that(1) sel [OF that(2)] by (simp add: App_render_def)
  have endpoint: "App_render e app req routeDataArg =
      callEndpoint e app req rd (map_of (pageMap (manifest app)) (component rd))"
    if "type rd = ''endpoint''" and "App_match e app req = App_match env app req" for e
    using that(1) sel [OF that(2)] by (simp add: App_render_def)
  show ?thesis
    using unsupported page [of env] endpoint [of env]
      page [OF _ App_match_renderEndpoint_update] endpoint [OF _ App_match_coreRender_update]
    by (simp add: renderPage_renderEndpoint_update callEndpoint_coreRender_update)
qed

theorem App_render_dispatch_witness:
  "App_render ex_env (App_new ex_manifest) (ex_request ''/feed'') (Some ex_route_feed) =
     (Inl (Error ''Unsupported route type [redirect].''), App_new ex_manifest)
   \<and> App_render ex_env (App_new ex_manifest) (ex_request ''/'') (Some ex_route_home) =
     renderPage ex_env (App_new ex_manifest) (ex_request ''/'') ex_route_home
       (Some \<lparr>moduleId = ''index'', metadata = None\<rparr>)
   \<and> App_render ex_env (App_new ex_manifest) (ex_request ''/api/data.json'') (Some ex_route_api) =
     callEndpoint ex_env (App_new ex_manifest) (ex_request ''/api/data.json'') ex_route_api
       (Some \<lparr>moduleId = ''data'', metadata = None\<rparr>)"
  using App_render_dispatch
      [of "Some ex_route_feed" ex_route_feed ex_env "App_new ex_manifest" "ex_request ''/feed''"]
    App_render_dispatch
      [of "Some ex_route_home" ex_route_home ex_env "App_new ex_manifest" "ex_request ''/''"]
    App_render_dispatch
      [of "Some ex_route_api" ex_route_api ex_env "App_new ex_manifest"
          "ex_request ''/api/data.json''"]
  by (simp add: ex_route_feed_def ex_route_home_def ex_route_api_def App_new_def ex_manifest_def)

text \<open>
  Claim C6, as amended.  The route cache belongs to the application, not to a request:
  the constructor makes one empty cache; a call to \<^verbatim>\<open>App.render\<close> hands the
  application's current cache to the page renderer or to the endpoint invoker, and the
  application keeps the cache as that callee leaves it.  So a later call on the same
  application is handed the entries that earlier calls wrote.
\<close>

theorem App_routeCache_app_scoped:
  assumes "routeDataArg = Some rd \<or> (routeDataArg = None \<and> App_match env app req = Some rd)"
  shows "appRouteCache (App_new mf) = []
       \<and> (type rd = ''page'' \<and> map_of (routeDataToRouteInfo app) rd = Some info \<longrightarrow>
            routeCache (renderPageOptions env app req rd m info) = appRouteCache app
            \<and> appRouteCache (snd (App_render env app req routeDataArg)) =
                snd (coreRender env
                       (renderPageOptions env app req rd
                          (map_of (pageMap (manifest app)) (component rd)) info)))
       \<and> (type rd = ''endpoint'' \<longrightarrow>
            routeCache (callEndpointOptions app req rd) = appRouteCache app
            \<and> appRouteCache (snd (App_render env app req routeDataArg)) =
                snd (snd (call env (map_of (pageMap (manifest app)) (component rd))
                            (callEndpointOptions app req rd))))"
proof -
  have sel: "(case routeDataArg of Some r \<Rightarrow> Some r | None \<Rightarrow> App_match env app req) = Some rd"
    using assms by auto
  have new: "appRouteCache (App_new mf) = []"
    by (simp add: App_new_def RouteCache_new_def)
  have page: "appRouteCache (snd (App_render env app req routeDataArg)) =
                snd (coreRender env
                       (renderPageOptions env app req rd
                          (map_of (pageMap (manifest app)) (component rd)) info))"
    if "type rd = ''page''" and "map_of (routeDataToRouteInfo app) rd = Some info"
    using that sel
    by (auto simp: App_render_def renderPage_def Let_def
          split: prod.splits sum.splits RenderResponse.splits)
  have endpoint: "appRouteCache (snd (App_render env app req routeDataArg)) =
                snd (snd (call env (map_of (pageMap (manifest app)) (component rd))
                            (callEndpointOptions app req rd)))"
    if "type rd = ''endpoint''"
    using that sel
    by (auto simp: App_render_def callEndpoint_def Let_def
          split: prod.splits sum.splits EndpointCallResult.splits)
  show ?thesis
    using new page endpoint by (simp add: renderPageOptions_def callEndpointOptions_def)
qed

theorem App_routeCache_app_scoped_witness:
  "appRouteCache (snd (App_render ex_env (App_new ex_manifest) (ex_request ''/api/data.json'') None))
     = [((ex_route_api, ''/api/data.json''), CachedParamsAndProps [] [])]
   \<and> appRouteCache (snd (App_render ex_env (App_new ex_manifest) (ex_request ''/'') None)) = []"
proof -
  have c: "call ex_env
             (map_of (pageMap (manifest (App_new ex_manifest))) (component ex_route_api))
             (callEndpointOptions (App_new ex_manifest) (ex_request ''/api/data.json'') ex_route_api)
           = ([], Inr (SimpleCallResult ''{}''),
              [((ex_route_api, ''/api/data.json''), CachedParamsAndProps [] [])])"
    by (simp add: call_def getParamsAndProps_def callEndpointOptions_def App_new_def
          ex_manifest_def ex_env_def ex_request_def ex_route_api_def RouteCache_new_def
          runRenderHookPostProcessHtml_def ex_hook_none_def)
  have m1: "App_match ex_env (App_new ex_manifest) (ex_request ''/api/data.json'') = Some ex_route_api"
    by (simp add: App_match_def matchRoute_def App_new_def ex_manifest_def ex_env_def
          ex_request_def ex_route_home_def ex_route_api_def)
  have m2: "App_match ex_env (App_new ex_manifest) (ex_request ''/'') = Some ex_route_home"
    by (simp add: App_match_def matchRoute_def App_new_def ex_manifest_def ex_env_def
          ex_request_def ex_route_home_def)
  have i: "map_of (routeDataToRouteInfo (App_new ex_manifest)) ex_route_home
           = Some \<lparr>routeData = ex_route_home, infoLinks = [''/assets/home.css''], infoScripts = []\<rparr>"
    by (simp add: App_new_def Map_new_def ex_manifest_def ex_route_home_def ex_route_api_def
          ex_route_products_def)
  have a: "appRouteCache (snd (App_render ex_env (App_new ex_manifest)
                                 (ex_request ''/api/data.json'') None))
           = [((ex_route_api, ''/api/data.json''), CachedParamsAndProps [] [])]"
    using App_routeCache_app_scoped
      [of None ex_route_api ex_env "App_new ex_manifest" "ex_request ''/api/data.json''"]
      m1 c
    by (simp add: ex_route_api_def)
  have b: "appRouteCache (snd (App_render ex_env (App_new ex_manifest) (ex_request ''/'') None)) = []"
    using App_routeCache_app_scoped
      [of None ex_route_home ex_env "App_new ex_manifest" "ex_request ''/''" ex_manifest
          "\<lparr>routeData = ex_route_home, infoLinks = [''/assets/home.css''], infoScripts = []\<rparr>"]
      m2 i
    by (simp add: ex_route_home_def ex_env_def renderPageOptions_def App_new_def RouteCache_new_def)
  show ?thesis using a b by simp
qed

text \<open>
  Claim C6 as stated does not hold.  On a new application, a request for
  \<^verbatim>\<open>/api/data.json\<close> writes an entry to the cache; the options that a following call
  builds, for a page render of \<^verbatim>\<open>/\<close> or for an endpoint call of \<^verbatim>\<open>/products/1\<close>, carry
  a cache with that entry.  With a core renderer that reports what it is handed, the same
  request for \<^verbatim>\<open>/\<close> gets one page on a new application and another page after the
  request for \<^verbatim>\<open>/api/data.json\<close>.
\<close>

theorem App_routeCache_request_scoped_counterexample:
  "appRouteCache (App_new ex_manifest) = []
   \<and> routeCache
        (renderPageOptions ex_env
           (snd (App_render ex_env (App_new ex_manifest) (ex_request ''/api/data.json'') None))
           (ex_request ''/'') ex_route_home
           (Some \<lparr>moduleId = ''index'', metadata = None\<rparr>)
           \<lparr>routeData = ex_route_home, infoLinks = [''/assets/home.css''], infoScripts = []\<rparr>)
      = [((ex_route_api, ''/api/data.json''), CachedParamsAndProps [] [])]
   \<and> routeCache
        (callEndpointOptions
           (snd (App_render ex_env (App_new ex_manifest) (ex_request ''/api/data.json'') None))
           (ex_request ''/products/1'') ex_route_products)
      = [((ex_route_api, ''/api/data.json''), CachedParamsAndProps [] [])]
   \<and> fst (App_render ex_env_probe (App_new ex_manifest) (ex_request ''/'') None)
      = Inr (NewResponse (Some (TextEncoder_encode ''fresh''))
               \<lparr>status = 200, statusText = [],
                headers = [(''Content-Type'', ''text/html''), (''Content-Length'', ''5'')]\<rparr>)
   \<and> fst (App_render ex_env_probe
            (snd (App_render ex_env_probe (App_new ex_manifest) (ex_request ''/api/data.json'') None))
            (ex_request ''/'') None)
      = Inr (NewResponse (Some (TextEncoder_encode ''seen''))
               \<lparr>status = 200, statusText = [],
                headers = [(''Content-Type'', ''text/html''), (''Content-Length'', ''4'')]\<rparr>)"
proof -
  have m1: "App_match (ex_env\<lparr>coreRender := cr\<rparr>) (App_new ex_manifest) (ex_request ''/api/data.json'')
            = Some ex_route_api" for cr
    by (simp add: App_match_def matchRoute_def App_new_def ex_manifest_def ex_env_def
          ex_request_def ex_route_home_def ex_route_api_def)
  have c: "call (ex_env\<lparr>coreRender := cr\<rparr>) (Some \<lparr>moduleId = ''data'', metadata = None\<rparr>)
             (callEndpointOptions (App_new ex_manifest) (ex_request ''/api/data.json'') ex_route_api)
           = ([], Inr (SimpleCallResult ''{}''),
              [((ex_route_api, ''/api/data.json''), CachedParamsAndProps [] [])])" for cr
    by (simp add: call_def getParamsAndProps_def callEndpointOptions_def App_new_def
          ex_manifest_def ex_env_def ex_request_def ex_route_api_def RouteCache_new_def
          runRenderHookPostProcessHtml_def ex_hook_none_def)
  have p: "map_of (pageMap (manifest (App_new ex_manifest))) (component ex_route_api)
           = Some \<lparr>moduleId = ''data'', metadata = None\<rparr>"
    by (simp add: App_new_def ex_manifest_def ex_route_api_def)
  have t: "type ex_route_api = ''endpoint''"
    by (simp add: ex_route_api_def)
  have a: "snd (App_render (ex_env\<lparr>coreRender := cr\<rparr>) (App_new ex_manifest)
                  (ex_request ''/api/data.json'') None)
           = (App_new ex_manifest)
               \<lparr>appRouteCache := [((ex_route_api, ''/api/data.json''), CachedParamsAndProps [] [])]\<rparr>"
    for cr
    by (simp add: App_render_def m1 t p callEndpoint_def c Let_def)
  have e: "ex_env\<lparr>coreRender := coreRender ex_env\<rparr> = ex_env"
    by simp
  have a0: "snd (App_render ex_env (App_new ex_manifest) (ex_request ''/api/data.json'') None)
           = (App_new ex_manifest)
               \<lparr>appRouteCache := [((ex_route_api, ''/api/data.json''), CachedParamsAndProps [] [])]\<rparr>"
    using a [of "coreRender ex_env"] by (simp only: e)
  have m2: "App_match ex_env_probe (app\<lparr>appRouteCache := x\<rparr>) (ex_request ''/'') = Some ex_route_home"
    if "app = App_new ex_manifest" for app x
    using that
    by (simp add: App_match_def matchRoute_def App_new_def ex_manifest_def ex_env_def
          ex_env_probe_def ex_request_def ex_route_home_def)
  have i: "map_of (routeDataToRouteInfo (App_new ex_manifest)) ex_route_home
           = Some \<lparr>routeData = ex_route_home, infoLinks = [''/assets/home.css''], infoScripts = []\<rparr>"
    by (simp add: App_new_def Map_new_def ex_manifest_def ex_route_home_def ex_route_api_def
          ex_route_products_def)
  have th: "type ex_route_home = ''page''"
    by (simp add: ex_route_home_def)
  have n5: "Number_toString (length (TextEncoder_encode ''fresh'')) = ''5''"
    by (simp add: TextEncoder_encode_def utf8_def Number_toString.simps)
  have n4: "Number_toString (length (TextEncoder_encode ''seen'')) = ''4''"
    by (simp add: TextEncoder_encode_def utf8_def Number_toString.simps)
  have fresh: "fst (App_render ex_env_probe (App_new ex_manifest) (ex_request ''/'') None)
      = Inr (NewResponse (Some (TextEncoder_encode ''fresh''))
               \<lparr>status = 200, statusText = [],
                headers = [(''Content-Type'', ''text/html''), (''Content-Length'', ''5'')]\<rparr>)"
    using m2 [of "App_new ex_manifest" "appRouteCache (App_new ex_manifest)"]
    by (simp add: App_render_def th renderPage_def i Let_def n5)
       (simp add: ex_env_probe_def renderPageOptions_def App_new_def RouteCache_new_def n5)
  have seen: "fst (App_render ex_env_probe
            ((App_new ex_manifest)
               \<lparr>appRouteCache := [((ex_route_api, ''/api/data.json''), CachedParamsAndProps [] [])]\<rparr>)
            (ex_request ''/'') None)
      = Inr (NewResponse (Some (TextEncoder_encode ''seen''))
               \<lparr>status = 200, statusText = [],
                headers = [(''Content-Type'', ''text/html''), (''Content-Length'', ''4'')]\<rparr>)"
    using m2 [of "App_new ex_manifest"] i
    by (simp add: App_render_def th renderPage_def Let_def)
       (simp add: ex_env_probe_def renderPageOptions_def n4)
  show ?thesis
    using fresh seen a [of "coreRender ex_env_probe"]
    by (simp add: a0 renderPageOptions_def callEndpointOptions_def ex_env_probe_def)
       (simp add: App_new_def RouteCache_new_def)
qed

section \<open>The doctype line of the development renderer\<close>

lemma doctypeRE_test_example: "doctypeRE_test ''<h1>Hi</h1>'' = False"
  by (simp add: doctypeRE_test_def toLowerASCII_def startsWith_def)

text \<open>
  Whenever the core render yields HTML for a route that is not an endpoint and the HTML
  with its tags injected has no doctype, the page returned is the doctype line followed by
  \<^verbatim>\<open>[object Object]\<close>, whatever the HTML was.
\<close>

lemma render_doctype_missing:
  assumes "dev_site env ssrOpts = Inr st"
    and "coreRender env (dev_renderOptions env rs hooks m ssrOpts st) = (Inr (HtmlResult h), cache)"
    and "\<forall>r. CommonOptions.route ssrOpts = Some r \<longrightarrow> type r \<noteq> ''endpoint''"
    and "\<not> doctypeRE_test (injectTags env h [])"
  shows "render env rs hooks m ssrOpts =
           (Inr (HtmlResult (''<!DOCTYPE html>'' @ [CHR 0x0A] @ ''[object Object]'')), cache)"
  using assms
  by (auto simp: render_def doctypeLine_def Object_toString_def Let_def split: option.splits)

text \<open>
  Claim C5 on a page whose core render yields \<^verbatim>\<open><h1>Hi</h1>\<close>, with no tags to inject:
  the claim asks for the doctype line followed by \<^verbatim>\<open><h1>Hi</h1>\<close>; the renderer returns
  the doctype line followed by \<^verbatim>\<open>[object Object]\<close>.
\<close>

theorem render_doctype_object_string:
  "fst (render ex_env [] [] ex_module ex_ssrOptions)
     = Inr (HtmlResult (''<!DOCTYPE html>'' @ [CHR 0x0A] @ ''[object Object]''))
   \<and> injectTags ex_env ''<h1>Hi</h1>'' [] = ''<h1>Hi</h1>''
   \<and> fst (render ex_env [] [] ex_module ex_ssrOptions)
     \<noteq> Inr (HtmlResult (''<!DOCTYPE html>'' @ [CHR 0x0A] @ ''<h1>Hi</h1>''))"
  by (simp add: render_def dev_site_def ex_env_def ex_ssrOptions_def ex_module_def ex_route_home_def
        doctypeLine_def Object_toString_def doctypeRE_test_example)

end
